theory Spec2Isabelle
  imports Main "HOL-Library.Word" "HOL-Library.Sublist"
begin

section \<open>JavaScript strings\<close>

text \<open>
  A JavaScript string is a sequence of UTF-16 code units. The literals of the source are
  ASCII; \<open>js\<close> turns such a literal into its code units.
\<close>

type_synonym js_string = "16 word list"

definition js :: "string \<Rightarrow> js_string" where
  "js s = map of_char s"

definition newline :: js_string where
  "newline = [0x0A]"

text \<open>
  \<open>String.prototype.trim\<close> removes the leading and trailing code units that are
  WhiteSpace or LineTerminator in ECMAScript: TAB, LF, VT, FF, CR, SP, NBSP, U+1680,
  U+2000 to U+200A, U+2028, U+2029, U+202F, U+205F, U+3000 and U+FEFF.
\<close>

definition is_white_space :: "16 word \<Rightarrow> bool" where
  "is_white_space c \<longleftrightarrow>
     c = 0x09 \<or> c = 0x0A \<or> c = 0x0B \<or> c = 0x0C \<or> c = 0x0D \<or> c = 0x20 \<or> c = 0xA0 \<or>
     c = 0x1680 \<or> (0x2000 \<le> c \<and> c \<le> 0x200A) \<or> c = 0x2028 \<or> c = 0x2029 \<or>
     c = 0x202F \<or> c = 0x205F \<or> c = 0x3000 \<or> c = 0xFEFF"

definition trim :: "js_string \<Rightarrow> js_string" where
  "trim s = rev (dropWhile is_white_space (rev (dropWhile is_white_space s)))"

section \<open>Style options and the prompt\<close>

datatype LineThickness = thin | medium | bold

datatype ImageQuality = low | medium_quality | high

text \<open>
  The two object literals of \<open>generateColoringPage\<close> that are indexed by the option
  values. \<open>ImageQuality\<close>'s \<open>'medium'\<close> is written \<open>medium_quality\<close>, the name
  \<open>medium\<close> being taken by \<open>LineThickness\<close>.
\<close>

fun thicknessDescription :: "LineThickness \<Rightarrow> js_string" where
  "thicknessDescription thin = js ''thin and delicate outlines''"
| "thicknessDescription medium = js ''bold outlines''"
| "thicknessDescription bold = js ''extra bold and thick outlines''"

fun qualityDescription :: "ImageQuality \<Rightarrow> js_string" where
  "qualityDescription low = js ''with simple details, suitable for young children''"
| "qualityDescription medium_quality = js ''with a moderate amount of detail''"
| "qualityDescription high = js ''with intricate and fine details, suitable for adults''"

text \<open>
  The template literal \<open>prompt\<close>, with its line breaks and the blanks that end four of
  its lines.
\<close>

definition prompt :: "LineThickness \<Rightarrow> ImageQuality \<Rightarrow> js_string" where
  "prompt lineThickness imageQuality =
     js ''Transform this image into a black and white coloring book page. '' @ newline @
     js ''The output should have clean, simple, and '' @ thicknessDescription lineThickness @
     js ''. '' @ newline @
     js ''It should be '' @ qualityDescription imageQuality @ js ''.'' @ newline @
     js ''Remove all shading, gradients, and colors. '' @ newline @
     js ''Focus on creating clear, distinct lines suitable for coloring. '' @ newline @
     js ''The final image should be purely line art.''"

section \<open>Requests and responses of the generation service\<close>

text \<open>
  The objects exchanged with \<open>ai.models.generateContent\<close>, with the fields the function
  writes or reads. An optional field is an \<open>option\<close>: \<open>None\<close> is \<open>undefined\<close>.
  \<open>part_text\<close> is the field \<open>text\<close> of a part and \<open>response_text\<close> the accessor
  \<open>text\<close> of a response.
\<close>

record blob =
  data :: "js_string option"
  mimeType :: "js_string option"

record part =
  inlineData :: "blob option"
  part_text :: "js_string option"

record content =
  parts :: "part list option"

datatype Modality = MODALITY_UNSPECIFIED | TEXT | IMAGE | AUDIO

record generation_config =
  responseModalities :: "Modality list option"

record request =
  model :: js_string
  contents :: content
  config :: generation_config

record candidate =
  content_of :: "content option"
  finishReason :: "js_string option"

record response =
  candidates :: "candidate list option"
  response_text :: "js_string option"

text \<open>
  What a \<open>throw\<close> carries: an instance of \<open>Error\<close> with its message, or any other
  value. What the awaited call does once it settles: it returns a response or throws.
\<close>

datatype js_thrown = Error (message: js_string) | NonError

datatype api_outcome = Returns response | Throws js_thrown

text \<open>
  The effects of the function: the requests sent to the service and the values passed to
  \<open>console.error\<close>, both in order.
\<close>

record effects =
  requests :: "request list"
  console_error :: "js_thrown list"

definition generateContent ::
  "(request \<Rightarrow> api_outcome) \<Rightarrow> request \<Rightarrow> effects \<Rightarrow> api_outcome \<times> effects" where
  "generateContent service req fx = (service req, fx\<lparr>requests := requests fx @ [req]\<rparr>)"

section \<open>generateColoringPage\<close>

text \<open>The argument of the call to \<open>generateContent\<close>.\<close>

definition build_request ::
  "js_string \<Rightarrow> js_string \<Rightarrow> LineThickness \<Rightarrow> ImageQuality \<Rightarrow> request" where
  "build_request base64ImageData mimeType' lineThickness imageQuality =
     \<lparr>model = js ''gemini-2.5-flash-image-preview'',
      contents = \<lparr>parts = Some
        [\<lparr>inlineData = Some \<lparr>data = Some base64ImageData, mimeType = Some mimeType'\<rparr>,
          part_text = None\<rparr>,
         \<lparr>inlineData = None, part_text = Some (prompt lineThickness imageQuality)\<rparr>]\<rparr>,
      config = \<lparr>responseModalities = Some [IMAGE, TEXT]\<rparr>\<rparr>"

text \<open>\<open>response.candidates?.[0]\<close>\<close>

definition first_candidate :: "response \<Rightarrow> candidate option" where
  "first_candidate r =
     (case candidates r of None \<Rightarrow> None | Some [] \<Rightarrow> None | Some (c # _) \<Rightarrow> Some c)"

text \<open>\<open>c?.content?.parts\<close>\<close>

definition candidate_parts :: "candidate \<Rightarrow> part list option" where
  "candidate_parts c = (case content_of c of None \<Rightarrow> None | Some ct \<Rightarrow> parts ct)"

text \<open>\<open>response.candidates?.[0]?.content?.parts?.find(part => part.inlineData)\<close>\<close>

definition imagePart :: "response \<Rightarrow> part option" where
  "imagePart r =
     (case first_candidate r of
        None \<Rightarrow> None
      | Some c \<Rightarrow>
          (case candidate_parts c of
             None \<Rightarrow> None
           | Some ps \<Rightarrow> find (\<lambda>p. inlineData p \<noteq> None) ps))"

text \<open>\<open>response.candidates?.[0]?.finishReason\<close>\<close>

definition rejectionReason :: "response \<Rightarrow> js_string option" where
  "rejectionReason r = (case first_candidate r of None \<Rightarrow> None | Some c \<Rightarrow> finishReason c)"

text \<open>\<open>response.text?.trim()\<close>\<close>

definition textResponse :: "response \<Rightarrow> js_string option" where
  "textResponse r = (case response_text r of None \<Rightarrow> None | Some t \<Rightarrow> Some (trim t))"

text \<open>The three errors thrown when the response has no image part.\<close>

definition safety_blocked :: js_thrown where
  "safety_blocked = Error (js ''Image generation was blocked due to safety or policy reasons.'')"

definition text_only :: "js_string \<Rightarrow> js_thrown" where
  "text_only t =
     Error (js ''The model returned a text response instead of an image: \"'' @ t @ js ''\"'')"

definition no_image_returned :: js_thrown where
  "no_image_returned =
     Error (js ''Failed to generate an image. The model did not return image data.'')"

text \<open>The \<open>else\<close> branch: no image part was found.\<close>

definition no_image :: "response \<Rightarrow> js_thrown" where
  "no_image r =
     (if rejectionReason r = Some (js ''SAFETY'') \<or> rejectionReason r = Some (js ''RECITATION'')
      then safety_blocked
      else (case textResponse r of
              None \<Rightarrow> no_image_returned
            | Some t \<Rightarrow> if t \<noteq> [] then text_only t else no_image_returned))"

text \<open>What follows the awaited call inside the \<open>try\<close> block.\<close>

definition read_response :: "response \<Rightarrow> js_thrown + js_string option" where
  "read_response r =
     (case imagePart r of
        None \<Rightarrow> Inl (no_image r)
      | Some p \<Rightarrow> (case inlineData p of None \<Rightarrow> Inl (no_image r) | Some b \<Rightarrow> Inr (data b)))"

text \<open>The \<open>try\<close> block: the call, then the reading of its response.\<close>

definition try_block ::
  "(request \<Rightarrow> api_outcome) \<Rightarrow> request \<Rightarrow> effects \<Rightarrow> (js_thrown + js_string option) \<times> effects"
  where
  "try_block service req fx =
     (case generateContent service req fx of
        (Throws e, fx') \<Rightarrow> (Inl e, fx')
      | (Returns r, fx') \<Rightarrow> (read_response r, fx'))"

text \<open>The errors thrown by the \<open>catch\<close> block.\<close>

definition api_error :: "js_string \<Rightarrow> js_thrown" where
  "api_error m = Error (js ''An API error occurred: '' @ m)"

definition unknown_error :: js_thrown where
  "unknown_error = Error (js ''An unknown error occurred while communicating with the API.'')"

definition catch_block :: "js_thrown \<Rightarrow> effects \<Rightarrow> js_thrown \<times> effects" where
  "catch_block e fx =
     (case e of Error m \<Rightarrow> api_error m | NonError \<Rightarrow> unknown_error,
      fx\<lparr>console_error := console_error fx @ [e]\<rparr>)"

text \<open>
  Line 33 builds the client before the \<open>try\<close> block. \<open>ai\<close> is what
  \<open>new GoogleGenAI({ apiKey: process.env.API_KEY })\<close> does: \<open>Inl\<close> of the value it
  throws, or \<open>Inr\<close> of the client, given by what its \<open>models.generateContent\<close> does
  with a request.
\<close>

type_synonym client = "request \<Rightarrow> api_outcome"

text \<open>
  The function. A throw of line 33 reaches the caller as it is, before any request and any
  log. In the result, \<open>Inr\<close> is the value the promise resolves to and \<open>Inl\<close> the error
  it rejects with.
\<close>

definition generateColoringPage ::
  "js_thrown + client \<Rightarrow> js_string \<Rightarrow> js_string \<Rightarrow> LineThickness \<Rightarrow> ImageQuality \<Rightarrow>
     effects \<Rightarrow> (js_thrown + js_string option) \<times> effects" where
  "generateColoringPage ai base64ImageData mimeType' lineThickness imageQuality fx =
     (case ai of
        Inl thrown \<Rightarrow> (Inl thrown, fx)
      | Inr service \<Rightarrow>
          (case try_block service
                  (build_request base64ImageData mimeType' lineThickness imageQuality) fx of
             (Inr v, fx') \<Rightarrow> (Inr v, fx')
           | (Inl e, fx') \<Rightarrow> (case catch_block e fx' of (e', fx'') \<Rightarrow> (Inl e', fx''))))"

section \<open>Sample services\<close>

text \<open>
  Concrete services and responses on which the function is run below: a response stopped
  for safety, a refusal in words, a reply of white space only, a call that throws an
  \<open>Error\<close>, a call that throws something else, a response with two images after a
  text part, and a response whose image is in its second candidate; and a construction of
  the client that throws, as it does in a browser when no API key is set.
\<close>

definition keyless_client :: "js_thrown + client" where
  "keyless_client = Inl (Error (js ''An API Key must be set when running in a browser''))"

definition no_effects :: effects where
  "no_effects = \<lparr>requests = [], console_error = []\<rparr>"

definition text_part :: "js_string \<Rightarrow> part" where
  "text_part t = \<lparr>inlineData = None, part_text = Some t\<rparr>"

definition image_part :: "js_string \<Rightarrow> part" where
  "image_part d = \<lparr>inlineData = Some \<lparr>data = Some d, mimeType = Some (js ''image/png'')\<rparr>,
                   part_text = None\<rparr>"

definition safety_response :: response where
  "safety_response =
     \<lparr>candidates = Some [\<lparr>content_of = None, finishReason = Some (js ''SAFETY'')\<rparr>],
      response_text = None\<rparr>"

definition safety_service :: "request \<Rightarrow> api_outcome" where
  "safety_service req = Returns safety_response"

definition refusal_response :: response where
  "refusal_response =
     \<lparr>candidates = Some
        [\<lparr>content_of = Some \<lparr>parts = Some [text_part (js '' I cannot draw this. '')]\<rparr>,
          finishReason = Some (js ''STOP'')\<rparr>],
      response_text = Some (js '' I cannot draw this. '')\<rparr>"

definition refusal_service :: "request \<Rightarrow> api_outcome" where
  "refusal_service req = Returns refusal_response"

definition blank_response :: response where
  "blank_response =
     \<lparr>candidates = Some
        [\<lparr>content_of = Some \<lparr>parts = Some [text_part (js '' '' @ newline)]\<rparr>,
          finishReason = Some (js ''STOP'')\<rparr>],
      response_text = Some (js '' '' @ newline)\<rparr>"

definition blank_service :: "request \<Rightarrow> api_outcome" where
  "blank_service req = Returns blank_response"

definition failing_service :: "request \<Rightarrow> api_outcome" where
  "failing_service req = Throws (Error (js ''fetch failed''))"

definition odd_service :: "request \<Rightarrow> api_outcome" where
  "odd_service req = Throws NonError"

definition image_response :: response where
  "image_response =
     \<lparr>candidates = Some
        [\<lparr>content_of = Some \<lparr>parts = Some
            [text_part (js ''Here it is''), image_part (js ''QUJD''), image_part (js ''REVG'')]\<rparr>,
          finishReason = Some (js ''STOP'')\<rparr>],
      response_text = Some (js ''Here it is'')\<rparr>"

definition image_service :: "request \<Rightarrow> api_outcome" where
  "image_service req = Returns image_response"

definition second_candidate_response :: response where
  "second_candidate_response =
     \<lparr>candidates = Some
        [\<lparr>content_of = Some \<lparr>parts = Some []\<rparr>, finishReason = Some (js ''STOP'')\<rparr>,
         \<lparr>content_of = Some \<lparr>parts = Some [image_part (js ''QUJD'')]\<rparr>,
          finishReason = Some (js ''STOP'')\<rparr>],
      response_text = None\<rparr>"

definition second_candidate_service :: "request \<Rightarrow> api_outcome" where
  "second_candidate_service req = Returns second_candidate_response"

section \<open>Properties of the prompt\<close>

lemma js_append: "js (a @ b) = js a @ js b"
  by (simp add: js_def)

lemma sublist_between: "sublist xs (ps @ xs @ ss)"
  unfolding sublist_def by blast

lemma prompt_thickness: "sublist (thicknessDescription t) (prompt t q)"
proof -
  have "prompt t q =
      (js ''Transform this image into a black and white coloring book page. '' @ newline @
       js ''The output should have clean, simple, and '') @
      thicknessDescription t @
      (js ''. '' @ newline @ js ''It should be '' @ qualityDescription q @ js ''.'' @ newline @
       js ''Remove all shading, gradients, and colors. '' @ newline @
       js ''Focus on creating clear, distinct lines suitable for coloring. '' @ newline @
       js ''The final image should be purely line art.'')"
    by (simp add: prompt_def)
  then show ?thesis
    by (simp only: sublist_between)
qed

lemma prompt_quality: "sublist (qualityDescription q) (prompt t q)"
proof -
  have "prompt t q =
      (js ''Transform this image into a black and white coloring book page. '' @ newline @
       js ''The output should have clean, simple, and '' @ thicknessDescription t @
       js ''. '' @ newline @ js ''It should be '') @
      qualityDescription q @
      (js ''.'' @ newline @
       js ''Remove all shading, gradients, and colors. '' @ newline @
       js ''Focus on creating clear, distinct lines suitable for coloring. '' @ newline @
       js ''The final image should be purely line art.'')"
    by (simp add: prompt_def)
  then show ?thesis
    by (simp only: sublist_between)
qed

lemma prompt_black_and_white:
  "sublist (js ''Transform this image into a black and white coloring book page.'') (prompt t q)"
proof -
  have "js ''Transform this image into a black and white coloring book page. '' =
      js ''Transform this image into a black and white coloring book page.'' @ js '' ''"
    by (simp add: js_def)
  then have "prompt t q =
      [] @ js ''Transform this image into a black and white coloring book page.'' @
      (js '' '' @ newline @
       js ''The output should have clean, simple, and '' @ thicknessDescription t @
       js ''. '' @ newline @ js ''It should be '' @ qualityDescription q @ js ''.'' @ newline @
       js ''Remove all shading, gradients, and colors. '' @ newline @
       js ''Focus on creating clear, distinct lines suitable for coloring. '' @ newline @
       js ''The final image should be purely line art.'')"
    by (simp add: prompt_def)
  then show ?thesis
    by (simp only: sublist_between)
qed

lemma prompt_remove_colors:
  "sublist (js ''Remove all shading, gradients, and colors.'') (prompt t q)"
proof -
  have "js ''Remove all shading, gradients, and colors. '' =
      js ''Remove all shading, gradients, and colors.'' @ js '' ''"
    by (simp add: js_def)
  then have "prompt t q =
      (js ''Transform this image into a black and white coloring book page. '' @ newline @
       js ''The output should have clean, simple, and '' @ thicknessDescription t @
       js ''. '' @ newline @ js ''It should be '' @ qualityDescription q @ js ''.'' @ newline) @
      js ''Remove all shading, gradients, and colors.'' @
      (js '' '' @ newline @
       js ''Focus on creating clear, distinct lines suitable for coloring. '' @ newline @
       js ''The final image should be purely line art.'')"
    by (simp add: prompt_def)
  then show ?thesis
    by (simp only: sublist_between)
qed

lemma prompt_line_art:
  "sublist (js ''The final image should be purely line art.'') (prompt t q)"
proof -
  have "prompt t q =
      (js ''Transform this image into a black and white coloring book page. '' @ newline @
       js ''The output should have clean, simple, and '' @ thicknessDescription t @
       js ''. '' @ newline @ js ''It should be '' @ qualityDescription q @ js ''.'' @ newline @
       js ''Remove all shading, gradients, and colors. '' @ newline @
       js ''Focus on creating clear, distinct lines suitable for coloring. '' @ newline) @
      js ''The final image should be purely line art.'' @ []"
    by (simp add: prompt_def)
  then show ?thesis
    by (simp only: sublist_between)
qed

section \<open>The steps of generateColoringPage\<close>

lemma try_block_Returns:
  "service req = Returns r \<Longrightarrow>
   try_block service req fx = (read_response r, fx\<lparr>requests := requests fx @ [req]\<rparr>)"
  by (simp add: try_block_def generateContent_def)

lemma try_block_Throws:
  "service req = Throws e \<Longrightarrow>
   try_block service req fx = (Inl e, fx\<lparr>requests := requests fx @ [req]\<rparr>)"
  by (simp add: try_block_def generateContent_def)

lemma try_block_requests:
  "requests (snd (try_block service req fx)) = requests fx @ [req]"
  by (cases "service req") (simp_all add: try_block_Returns try_block_Throws)

lemma result_resolved:
  "fst (try_block service (build_request b m t q) fx) = Inr v \<Longrightarrow>
   fst (generateColoringPage (Inr service) b m t q fx) = Inr v"
  by (cases "try_block service (build_request b m t q) fx")
    (simp add: generateColoringPage_def)

lemma result_Error:
  "fst (try_block service (build_request b m t q) fx) = Inl (Error msg) \<Longrightarrow>
   fst (generateColoringPage (Inr service) b m t q fx) =
     Inl (Error (js ''An API error occurred: '' @ msg))"
  by (cases "try_block service (build_request b m t q) fx")
    (simp add: generateColoringPage_def catch_block_def api_error_def)

lemma result_NonError:
  "fst (try_block service (build_request b m t q) fx) = Inl NonError \<Longrightarrow>
   fst (generateColoringPage (Inr service) b m t q fx) =
     Inl (Error (js ''An unknown error occurred while communicating with the API.''))"
  by (cases "try_block service (build_request b m t q) fx")
    (simp add: generateColoringPage_def catch_block_def unknown_error_def)

lemma generateColoringPage_no_client:
  "generateColoringPage (Inl thrown) b m t q fx = (Inl thrown, fx)"
  by (simp add: generateColoringPage_def)

lemma generateColoringPage_requests:
  "requests (snd (generateColoringPage (Inr service) b m t q fx)) =
   requests fx @ [build_request b m t q]"
proof -
  let ?tb = "try_block service (build_request b m t q) fx"
  have "requests (snd (generateColoringPage (Inr service) b m t q fx)) = requests (snd ?tb)"
    by (simp add: generateColoringPage_def catch_block_def split: prod.splits sum.splits)
  then show ?thesis
    by (simp add: try_block_requests)
qed

section \<open>Reading a response\<close>

lemma read_response_no_image: "imagePart r = None \<Longrightarrow> read_response r = Inl (no_image r)"
  by (simp add: read_response_def)

lemma no_image_safety:
  "rejectionReason r = Some (js ''SAFETY'') \<or> rejectionReason r = Some (js ''RECITATION'') \<Longrightarrow>
   no_image r = Error (js ''Image generation was blocked due to safety or policy reasons.'')"
  by (simp add: no_image_def safety_blocked_def)

lemma no_image_text:
  "rejectionReason r \<noteq> Some (js ''SAFETY'') \<Longrightarrow> rejectionReason r \<noteq> Some (js ''RECITATION'') \<Longrightarrow>
   response_text r = Some txt \<Longrightarrow> trim txt \<noteq> [] \<Longrightarrow>
   no_image r =
     Error (js ''The model returned a text response instead of an image: \"'' @ trim txt @
            js ''\"'')"
  by (simp add: no_image_def textResponse_def text_only_def)

lemma no_image_nothing:
  "rejectionReason r \<noteq> Some (js ''SAFETY'') \<Longrightarrow> rejectionReason r \<noteq> Some (js ''RECITATION'') \<Longrightarrow>
   textResponse r = None \<or> textResponse r = Some [] \<Longrightarrow>
   no_image r = Error (js ''Failed to generate an image. The model did not return image data.'')"
  by (auto simp add: no_image_def no_image_returned_def)

lemma no_image_is_Error: "\<exists>msg. no_image r = Error msg"
  by (simp add: no_image_def safety_blocked_def text_only_def no_image_returned_def
      split: option.splits)

lemma read_response_Inl:
  assumes "read_response r = Inl e"
  shows "\<exists>msg. e = Error msg"
proof -
  from assms have "e = no_image r"
    by (simp add: read_response_def split: option.splits)
  then show ?thesis
    by (simp add: no_image_is_Error)
qed

lemma find_first:
  "\<forall>x \<in> set pre. \<not> P x \<Longrightarrow> P p \<Longrightarrow> find P (pre @ p # post) = Some p"
  by (induction pre) simp_all

lemma imagePart_first:
  assumes "candidates r = Some (c # cs)"
    and "content_of c = Some ct"
    and "parts ct = Some (pre @ p # post)"
    and "\<forall>x \<in> set pre. inlineData x = None"
    and "inlineData p = Some b"
  shows "imagePart r = Some p"
proof -
  have "find (\<lambda>x. inlineData x \<noteq> None) (pre @ p # post) = Some p"
    using assms(4,5) by (intro find_first) simp_all
  with assms(1-3) show ?thesis
    by (simp add: imagePart_def first_candidate_def candidate_parts_def)
qed

lemma imagePart_none:
  assumes "candidates r = Some (c # cs)"
    and "\<forall>ps \<in> set_option (candidate_parts c). \<forall>p \<in> set ps. inlineData p = None"
  shows "imagePart r = None"
proof (cases "candidate_parts c")
  case None
  with assms(1) show ?thesis
    by (simp add: imagePart_def first_candidate_def)
next
  case (Some ps)
  with assms(2) have "find (\<lambda>p. inlineData p \<noteq> None) ps = None"
    by (simp add: find_None_iff)
  with Some assms(1) show ?thesis
    by (simp add: imagePart_def first_candidate_def)
qed

lemma first_image_data:
  assumes "service (build_request b m t q) = Returns r"
    and "candidates r = Some (c # cs)"
    and "content_of c = Some ct"
    and "parts ct = Some (pre @ p # post)"
    and "\<forall>x \<in> set pre. inlineData x = None"
    and "inlineData p = Some img"
  shows "fst (generateColoringPage (Inr service) b m t q fx) = Inr (data img)"
proof -
  have "imagePart r = Some p"
    using assms(2-6) by (rule imagePart_first)
  with assms(6) have "read_response r = Inr (data img)"
    by (simp add: read_response_def)
  with assms(1) show ?thesis
    by (simp add: result_resolved try_block_Returns)
qed

section \<open>Sample runs\<close>

lemma safety_response_facts:
  "imagePart safety_response = None"
  "rejectionReason safety_response = Some (js ''SAFETY'')"
  by (simp_all add: safety_response_def imagePart_def first_candidate_def candidate_parts_def
      rejectionReason_def)

lemma STOP_neq: "js ''STOP'' \<noteq> js ''SAFETY''" "js ''STOP'' \<noteq> js ''RECITATION''"
  by (simp_all add: js_def)

lemma refusal_response_facts:
  "imagePart refusal_response = None"
  "rejectionReason refusal_response \<noteq> Some (js ''SAFETY'')"
  "rejectionReason refusal_response \<noteq> Some (js ''RECITATION'')"
  "response_text refusal_response = Some (js '' I cannot draw this. '')"
  by (simp_all add: refusal_response_def imagePart_def first_candidate_def candidate_parts_def
      rejectionReason_def text_part_def STOP_neq)

lemma trim_refusal: "trim (js '' I cannot draw this. '') = js ''I cannot draw this.''"
  by (simp add: trim_def js_def is_white_space_def)

lemma blank_response_facts:
  "imagePart blank_response = None"
  "rejectionReason blank_response \<noteq> Some (js ''SAFETY'')"
  "rejectionReason blank_response \<noteq> Some (js ''RECITATION'')"
  "textResponse blank_response = Some []"
  by (simp_all add: blank_response_def imagePart_def first_candidate_def candidate_parts_def
      rejectionReason_def text_part_def STOP_neq textResponse_def trim_def js_def newline_def
      is_white_space_def)

section \<open>Claims\<close>

text \<open>
  C6. For each of the nine pairs of a line thickness and a detail level, the prompt contains
  the phrase of the thickness and the phrase of the detail level, each as the two tables
  give it, and it asks for a black and white coloring book page, for pure line art, and
  for the removal of all shading, gradients and colors.
\<close>

theorem prompt_contains_phrases:
  "sublist (thicknessDescription t) (prompt t q) \<and>
   sublist (qualityDescription q) (prompt t q) \<and>
   thicknessDescription thin = js ''thin and delicate outlines'' \<and>
   thicknessDescription medium = js ''bold outlines'' \<and>
   thicknessDescription bold = js ''extra bold and thick outlines'' \<and>
   qualityDescription low = js ''with simple details, suitable for young children'' \<and>
   qualityDescription medium_quality = js ''with a moderate amount of detail'' \<and>
   qualityDescription high = js ''with intricate and fine details, suitable for adults'' \<and>
   sublist (js ''Transform this image into a black and white coloring book page.'') (prompt t q) \<and>
   sublist (js ''The final image should be purely line art.'') (prompt t q) \<and>
   sublist (js ''Remove all shading, gradients, and colors.'') (prompt t q)"
  by (simp only: prompt_thickness prompt_quality prompt_black_and_white prompt_line_art
      prompt_remove_colors thicknessDescription.simps qualityDescription.simps simp_thms)

text \<open>
  C1, as amended. When the response has no image part and the finish reason of its first
  candidate is \<open>'SAFETY'\<close> or \<open>'RECITATION'\<close>, the error thrown at line 66 is caught by
  the \<open>catch\<close> block of the same function: the caller gets the error whose message is
  \<open>'An API error occurred: '\<close> followed by the message of the safety error, and no other.
\<close>

theorem safety_rejection_rethrown:
  assumes "service (build_request b m t q) = Returns r"
    and "imagePart r = None"
    and "rejectionReason r = Some (js ''SAFETY'') \<or> rejectionReason r = Some (js ''RECITATION'')"
  shows "fst (generateColoringPage (Inr service) b m t q fx) =
    Inl (Error (js ''An API error occurred: '' @
                js ''Image generation was blocked due to safety or policy reasons.''))"
proof -
  have "read_response r =
      Inl (Error (js ''Image generation was blocked due to safety or policy reasons.''))"
    using assms(2,3) by (simp add: read_response_no_image no_image_safety)
  with assms(1) show ?thesis
    by (simp add: result_Error try_block_Returns)
qed

theorem safety_rejection_rethrown_witness:
  "safety_service (build_request (js ''AAAA'') (js ''image/png'') thin low) =
     Returns safety_response \<and>
   imagePart safety_response = None \<and>
   rejectionReason safety_response = Some (js ''SAFETY'') \<and>
   fst (generateColoringPage (Inr safety_service) (js ''AAAA'') (js ''image/png'') thin low no_effects) =
     Inl (Error (js (''An API error occurred: '' @
                     ''Image generation was blocked due to safety or policy reasons.'')))"
proof -
  have h1: "safety_service (build_request (js ''AAAA'') (js ''image/png'') thin low) =
      Returns safety_response"
    by (simp add: safety_service_def)
  have h3: "rejectionReason safety_response = Some (js ''SAFETY'') \<or>
      rejectionReason safety_response = Some (js ''RECITATION'')"
    by (simp add: safety_response_facts)
  show ?thesis
    using safety_rejection_rethrown [of safety_service "js ''AAAA''" "js ''image/png''" thin low
        safety_response no_effects, OF h1 safety_response_facts(1) h3]
    by (simp only: h1 safety_response_facts js_append simp_thms)
qed

text \<open>
  C1 as the specification states it fails: on a response stopped for \<open>'SAFETY'\<close> the
  caller does not get the safety error itself but the API error that wraps its message.
\<close>

theorem safety_blocked_not_surfaced:
  "imagePart safety_response = None \<and>
   rejectionReason safety_response = Some (js ''SAFETY'') \<and>
   fst (generateColoringPage (Inr safety_service) (js ''AAAA'') (js ''image/png'') thin low no_effects) \<noteq>
     Inl safety_blocked \<and>
   fst (generateColoringPage (Inr safety_service) (js ''AAAA'') (js ''image/png'') thin low no_effects) =
     Inl (api_error (message safety_blocked))"
proof -
  have "read_response safety_response = Inl safety_blocked"
    by (simp add: read_response_no_image safety_response_facts no_image_def)
  then have "fst (generateColoringPage (Inr safety_service) (js ''AAAA'') (js ''image/png'') thin low
        no_effects) = Inl (api_error (message safety_blocked))"
    by (simp add: result_Error try_block_Returns safety_service_def safety_blocked_def
        api_error_def)
  moreover have "api_error (message safety_blocked) \<noteq> safety_blocked"
    by (simp add: api_error_def safety_blocked_def js_def)
  ultimately show ?thesis
    by (simp add: safety_response_facts)
qed

text \<open>
  C2, as amended. When the response has no image part, the finish reason of its first
  candidate is neither \<open>'SAFETY'\<close> nor \<open>'RECITATION'\<close>, and its text is not empty once
  trimmed, the error thrown at line 70 is caught by the \<open>catch\<close> block: the caller gets
  the error whose message is \<open>'An API error occurred: '\<close> followed by the message of the
  text-only error, which quotes the trimmed text, and no other.
\<close>

theorem text_only_rethrown:
  assumes "service (build_request b m t q) = Returns r"
    and "imagePart r = None"
    and "rejectionReason r \<noteq> Some (js ''SAFETY'')"
    and "rejectionReason r \<noteq> Some (js ''RECITATION'')"
    and "response_text r = Some txt"
    and "trim txt \<noteq> []"
  shows "fst (generateColoringPage (Inr service) b m t q fx) =
    Inl (Error (js ''An API error occurred: '' @
                js ''The model returned a text response instead of an image: \"'' @
                trim txt @ js ''\"''))"
proof -
  have "read_response r =
      Inl (Error (js ''The model returned a text response instead of an image: \"'' @
                  trim txt @ js ''\"''))"
    using assms(2-6) by (simp add: read_response_no_image no_image_text)
  with assms(1) show ?thesis
    by (simp add: result_Error try_block_Returns)
qed

theorem text_only_rethrown_witness:
  "refusal_service (build_request (js ''AAAA'') (js ''image/png'') medium medium_quality) =
     Returns refusal_response \<and>
   imagePart refusal_response = None \<and>
   rejectionReason refusal_response \<noteq> Some (js ''SAFETY'') \<and>
   rejectionReason refusal_response \<noteq> Some (js ''RECITATION'') \<and>
   response_text refusal_response = Some (js '' I cannot draw this. '') \<and>
   trim (js '' I cannot draw this. '') \<noteq> [] \<and>
   fst (generateColoringPage (Inr refusal_service) (js ''AAAA'') (js ''image/png'') medium medium_quality
          no_effects) =
     Inl (Error (js (''An API error occurred: '' @
                     ''The model returned a text response instead of an image: '' @
                     ''\"I cannot draw this.\"'')))"
proof -
  have h1: "refusal_service (build_request (js ''AAAA'') (js ''image/png'') medium medium_quality) =
      Returns refusal_response"
    by (simp add: refusal_service_def)
  have h6: "trim (js '' I cannot draw this. '') \<noteq> []"
    by (simp add: trim_def js_def is_white_space_def)
  have "fst (generateColoringPage (Inr refusal_service) (js ''AAAA'') (js ''image/png'') medium
          medium_quality no_effects) =
      Inl (Error (js ''An API error occurred: '' @
                  js ''The model returned a text response instead of an image: \"'' @
                  trim (js '' I cannot draw this. '') @ js ''\"''))"
    using text_only_rethrown [of refusal_service "js ''AAAA''" "js ''image/png''" medium
        medium_quality refusal_response "js '' I cannot draw this. ''" no_effects,
        OF h1 refusal_response_facts h6] .
  then have "fst (generateColoringPage (Inr refusal_service) (js ''AAAA'') (js ''image/png'') medium
          medium_quality no_effects) =
      Inl (Error (js (''An API error occurred: '' @
                     ''The model returned a text response instead of an image: '' @
                     ''\"I cannot draw this.\"'')))"
    unfolding trim_refusal by (simp add: js_def)
  with h1 h6 show ?thesis
    by (simp only: refusal_response_facts simp_thms not_False_eq_True)
qed

text \<open>
  C2 as the specification states it fails: on a refusal in words the caller does not get
  the text-only error itself but the API error that wraps its message.
\<close>

theorem text_only_not_surfaced:
  "imagePart refusal_response = None \<and>
   rejectionReason refusal_response \<noteq> Some (js ''SAFETY'') \<and>
   rejectionReason refusal_response \<noteq> Some (js ''RECITATION'') \<and>
   response_text refusal_response = Some (js '' I cannot draw this. '') \<and>
   trim (js '' I cannot draw this. '') = js ''I cannot draw this.'' \<and>
   fst (generateColoringPage (Inr refusal_service) (js ''AAAA'') (js ''image/png'') medium medium_quality
          no_effects) \<noteq> Inl (text_only (js ''I cannot draw this.'')) \<and>
   fst (generateColoringPage (Inr refusal_service) (js ''AAAA'') (js ''image/png'') medium medium_quality
          no_effects) = Inl (api_error (message (text_only (js ''I cannot draw this.''))))"
proof -
  have "trim (js '' I cannot draw this. '') \<noteq> []"
    by (simp add: trim_def js_def is_white_space_def)
  then have "no_image refusal_response = text_only (trim (js '' I cannot draw this. ''))"
    unfolding text_only_def by (rule no_image_text [OF refusal_response_facts(2,3,4)])
  then have "no_image refusal_response = text_only (js ''I cannot draw this.'')"
    unfolding trim_refusal .
  then have "read_response refusal_response = Inl (text_only (js ''I cannot draw this.''))"
    by (simp add: read_response_no_image refusal_response_facts)
  then have "fst (generateColoringPage (Inr refusal_service) (js ''AAAA'') (js ''image/png'') medium
        medium_quality no_effects) = Inl (api_error (message (text_only (js ''I cannot draw this.''))))"
    by (simp add: result_Error try_block_Returns refusal_service_def text_only_def api_error_def)
  moreover have "api_error (message (text_only (js ''I cannot draw this.''))) \<noteq>
      text_only (js ''I cannot draw this.'')"
    by (simp add: api_error_def text_only_def js_def)
  ultimately show ?thesis
    by (simp add: refusal_response_facts trim_refusal)
qed

text \<open>
  C3, as amended. When the response has no image part, the finish reason of its first
  candidate is neither \<open>'SAFETY'\<close> nor \<open>'RECITATION'\<close>, and it has no text or a text that
  is empty once trimmed, the error thrown at line 72 is caught by the \<open>catch\<close> block: the
  caller gets the error whose message is \<open>'An API error occurred: '\<close> followed by the
  message of the no-image error, and no other.
\<close>

theorem no_image_rethrown:
  assumes "service (build_request b m t q) = Returns r"
    and "imagePart r = None"
    and "rejectionReason r \<noteq> Some (js ''SAFETY'')"
    and "rejectionReason r \<noteq> Some (js ''RECITATION'')"
    and "response_text r = None \<or> (\<exists>txt. response_text r = Some txt \<and> trim txt = [])"
  shows "fst (generateColoringPage (Inr service) b m t q fx) =
    Inl (Error (js ''An API error occurred: '' @
                js ''Failed to generate an image. The model did not return image data.''))"
proof -
  from assms(5) have "textResponse r = None \<or> textResponse r = Some []"
    by (auto simp add: textResponse_def)
  with assms(2-4) have "read_response r =
      Inl (Error (js ''Failed to generate an image. The model did not return image data.''))"
    by (simp add: read_response_no_image no_image_nothing)
  with assms(1) show ?thesis
    by (simp add: result_Error try_block_Returns)
qed

theorem no_image_rethrown_witness:
  "blank_service (build_request (js ''AAAA'') (js ''image/png'') bold high) =
     Returns blank_response \<and>
   imagePart blank_response = None \<and>
   rejectionReason blank_response \<noteq> Some (js ''SAFETY'') \<and>
   rejectionReason blank_response \<noteq> Some (js ''RECITATION'') \<and>
   response_text blank_response = Some (js '' '' @ newline) \<and>
   trim (js '' '' @ newline) = [] \<and>
   fst (generateColoringPage (Inr blank_service) (js ''AAAA'') (js ''image/png'') bold high no_effects) =
     Inl (Error (js (''An API error occurred: '' @
                     ''Failed to generate an image. The model did not return image data.'')))"
proof -
  have h1: "blank_service (build_request (js ''AAAA'') (js ''image/png'') bold high) =
      Returns blank_response"
    by (simp add: blank_service_def)
  have h5: "response_text blank_response = Some (js '' '' @ newline)"
    by (simp add: blank_response_def)
  have h6: "trim (js '' '' @ newline) = []"
    by (simp add: trim_def js_def newline_def is_white_space_def)
  from h5 h6 have h7: "response_text blank_response = None \<or>
      (\<exists>txt. response_text blank_response = Some txt \<and> trim txt = [])"
    by simp
  show ?thesis
    using no_image_rethrown [of blank_service "js ''AAAA''" "js ''image/png''" bold high
        blank_response no_effects, OF h1 blank_response_facts(1,2,3) h7]
    by (simp only: h1 h5 h6 blank_response_facts js_append simp_thms not_False_eq_True)
qed

text \<open>
  C3 as the specification states it fails: on a reply of white space only the caller does
  not get the no-image error itself but the API error that wraps its message.
\<close>

theorem no_image_returned_not_surfaced:
  "imagePart blank_response = None \<and>
   rejectionReason blank_response \<noteq> Some (js ''SAFETY'') \<and>
   rejectionReason blank_response \<noteq> Some (js ''RECITATION'') \<and>
   textResponse blank_response = Some [] \<and>
   fst (generateColoringPage (Inr blank_service) (js ''AAAA'') (js ''image/png'') bold high no_effects) \<noteq>
     Inl no_image_returned \<and>
   fst (generateColoringPage (Inr blank_service) (js ''AAAA'') (js ''image/png'') bold high no_effects) =
     Inl (api_error (message no_image_returned))"
proof -
  have "no_image blank_response = no_image_returned"
    using no_image_nothing [OF blank_response_facts(2,3)]
    by (simp add: blank_response_facts no_image_returned_def)
  then have "read_response blank_response = Inl no_image_returned"
    by (simp add: read_response_no_image blank_response_facts)
  then have "fst (generateColoringPage (Inr blank_service) (js ''AAAA'') (js ''image/png'') bold high
        no_effects) = Inl (api_error (message no_image_returned))"
    by (simp add: result_Error try_block_Returns blank_service_def no_image_returned_def
        api_error_def)
  moreover have "api_error (message no_image_returned) \<noteq> no_image_returned"
    by (simp add: api_error_def no_image_returned_def js_def)
  ultimately show ?thesis
    by (simp add: blank_response_facts)
qed

text \<open>
  C4. When the call to \<open>generateContent\<close> throws an \<open>Error\<close>, the caller gets the error
  whose message is \<open>'An API error occurred: '\<close> followed by the message of the thrown one;
  when it throws a value that is not an \<open>Error\<close>, the caller gets the error with the
  fixed message of the unknown error.
\<close>

theorem thrown_call_reclassified:
  assumes "service (build_request b m t q) = Throws e"
  shows "fst (generateColoringPage (Inr service) b m t q fx) =
    Inl (case e of
           Error msg \<Rightarrow> Error (js ''An API error occurred: '' @ msg)
         | NonError \<Rightarrow>
             Error (js ''An unknown error occurred while communicating with the API.''))"
proof (cases e)
  case (Error msg)
  with assms show ?thesis
    by (simp add: result_Error try_block_Throws)
next
  case NonError
  with assms show ?thesis
    by (simp add: result_NonError try_block_Throws)
qed

theorem thrown_call_reclassified_witness:
  "failing_service (build_request (js ''AAAA'') (js ''image/png'') thin high) =
     Throws (Error (js ''fetch failed'')) \<and>
   fst (generateColoringPage (Inr failing_service) (js ''AAAA'') (js ''image/png'') thin high
          no_effects) =
     Inl (Error (js (''An API error occurred: '' @ ''fetch failed''))) \<and>
   odd_service (build_request (js ''AAAA'') (js ''image/png'') thin high) = Throws NonError \<and>
   fst (generateColoringPage (Inr odd_service) (js ''AAAA'') (js ''image/png'') thin high no_effects) =
     Inl (Error (js ''An unknown error occurred while communicating with the API.''))"
proof -
  have h1: "failing_service (build_request (js ''AAAA'') (js ''image/png'') thin high) =
      Throws (Error (js ''fetch failed''))"
    by (simp add: failing_service_def)
  have h2: "odd_service (build_request (js ''AAAA'') (js ''image/png'') thin high) =
      Throws NonError"
    by (simp add: odd_service_def)
  show ?thesis
    using thrown_call_reclassified [of failing_service "js ''AAAA''" "js ''image/png''" thin high
        "Error (js ''fetch failed'')" no_effects, OF h1]
      thrown_call_reclassified [of odd_service "js ''AAAA''" "js ''image/png''" thin high
        NonError no_effects, OF h2]
    by (simp only: h1 h2 js_append js_thrown.case simp_thms)
qed

text \<open>
  C5. When the parts of the first candidate of the response contain a part with inline
  data, the function returns the data of the first such part, as it is.
\<close>

theorem first_image_returned:
  assumes "service (build_request b m t q) = Returns r"
    and "candidates r = Some (c # cs)"
    and "content_of c = Some ct"
    and "parts ct = Some ps"
    and "\<exists>p \<in> set ps. inlineData p \<noteq> None"
  shows "\<exists>pre p post img.
    ps = pre @ p # post \<and> (\<forall>x \<in> set pre. inlineData x = None) \<and> inlineData p = Some img \<and>
    fst (generateColoringPage (Inr service) b m t q fx) = Inr (data img)"
proof -
  from assms(5) obtain pre p post
    where ps: "ps = pre @ p # post"
      and p: "inlineData p \<noteq> None"
      and pre: "\<forall>x \<in> set pre. \<not> inlineData x \<noteq> None"
    using split_list_first_prop [of ps "\<lambda>p. inlineData p \<noteq> None"] by blast
  from p obtain img where img: "inlineData p = Some img"
    by blast
  from pre have none: "\<forall>x \<in> set pre. inlineData x = None"
    by simp
  from assms(4) ps have "parts ct = Some (pre @ p # post)"
    by simp
  with assms(1-3) have "fst (generateColoringPage (Inr service) b m t q fx) = Inr (data img)"
    using none img by (rule first_image_data)
  with ps none img show ?thesis
    by blast
qed

theorem first_image_returned_witness:
  "image_service (build_request (js ''AAAA'') (js ''image/png'') bold low) =
     Returns image_response \<and>
   candidates image_response =
     Some (\<lparr>content_of = Some \<lparr>parts = Some
              [text_part (js ''Here it is''), image_part (js ''QUJD''),
               image_part (js ''REVG'')]\<rparr>,
            finishReason = Some (js ''STOP'')\<rparr> # []) \<and>
   (\<exists>p \<in> set [text_part (js ''Here it is''), image_part (js ''QUJD''),
       image_part (js ''REVG'')]. inlineData p \<noteq> None) \<and>
   (\<exists>pre p post img.
      [text_part (js ''Here it is''), image_part (js ''QUJD''), image_part (js ''REVG'')] =
        pre @ p # post \<and>
      (\<forall>x \<in> set pre. inlineData x = None) \<and> inlineData p = Some img \<and>
      fst (generateColoringPage (Inr image_service) (js ''AAAA'') (js ''image/png'') bold low
             no_effects) = Inr (data img)) \<and>
   fst (generateColoringPage (Inr image_service) (js ''AAAA'') (js ''image/png'') bold low no_effects) =
     Inr (Some (js ''QUJD''))"
proof -
  let ?ps = "[text_part (js ''Here it is''), image_part (js ''QUJD''), image_part (js ''REVG'')]"
  let ?c = "\<lparr>content_of = Some \<lparr>parts = Some ?ps\<rparr>, finishReason = Some (js ''STOP'')\<rparr>"
  have h1: "image_service (build_request (js ''AAAA'') (js ''image/png'') bold low) =
      Returns image_response"
    by (simp add: image_service_def)
  have h2: "candidates image_response = Some (?c # [])"
    by (simp add: image_response_def)
  have h3: "content_of ?c = Some \<lparr>parts = Some ?ps\<rparr>"
    by simp
  have h4: "parts \<lparr>parts = Some ?ps\<rparr> = Some ?ps"
    by simp
  have h5: "\<exists>p \<in> set ?ps. inlineData p \<noteq> None"
    by (simp add: image_part_def)
  have res: "fst (generateColoringPage (Inr image_service) (js ''AAAA'') (js ''image/png'') bold low
        no_effects) = Inr (Some (js ''QUJD''))"
    by (simp add: result_resolved try_block_Returns image_service_def read_response_def
        imagePart_def first_candidate_def candidate_parts_def image_response_def text_part_def
        image_part_def)
  from h1 h2 h5 res
    first_image_returned [of image_service "js ''AAAA''" "js ''image/png''" bold low
      image_response ?c "[]" "\<lparr>parts = Some ?ps\<rparr>" ?ps no_effects, OF h1 h2 h3 h4 h5]
  show ?thesis
    by (simp only: simp_thms)
qed

text \<open>
  C7. Once the client is built, the function sends exactly one request, whatever the service
  answers: its model is \<open>'gemini-2.5-flash-image-preview'\<close>, its parts are the input
  image with its media type and then the prompt, and its configuration asks for the
  modalities image and text. When line 33 throws, no request is sent.
\<close>

theorem request_sent:
  "requests (snd (generateColoringPage ai base64ImageData mimeType' lineThickness
      imageQuality fx)) =
   requests fx @
   (case ai of
      Inl thrown \<Rightarrow> []
    | Inr service \<Rightarrow>
        [\<lparr>model = js ''gemini-2.5-flash-image-preview'',
          contents = \<lparr>parts = Some
            [\<lparr>inlineData = Some \<lparr>data = Some base64ImageData, mimeType = Some mimeType'\<rparr>,
              part_text = None\<rparr>,
             \<lparr>inlineData = None, part_text = Some (prompt lineThickness imageQuality)\<rparr>]\<rparr>,
          config = \<lparr>responseModalities = Some [IMAGE, TEXT]\<rparr>\<rparr>])"
proof (cases ai)
  case (Inl thrown)
  then show ?thesis
    by (simp add: generateColoringPage_no_client)
next
  case (Inr service)
  then show ?thesis
    by (simp add: generateColoringPage_requests build_request_def)
qed

text \<open>
  C8. A run of the function adds at most one request to those already sent, on every path:
  no failure leads to a second call.
\<close>

theorem no_retry:
  "\<exists>sent. requests (snd (generateColoringPage ai b m t q fx)) = requests fx @ sent \<and>
     length sent \<le> 1"
proof (cases ai)
  case (Inl thrown)
  then have "requests (snd (generateColoringPage ai b m t q fx)) = requests fx @ [] \<and>
      length ([] :: request list) \<le> 1"
    by (simp add: generateColoringPage_no_client)
  then show ?thesis
    by blast
next
  case (Inr service)
  then have "requests (snd (generateColoringPage ai b m t q fx)) =
      requests fx @ [build_request b m t q] \<and> length [build_request b m t q] \<le> 1"
    by (simp add: generateColoringPage_requests)
  then show ?thesis
    by blast
qed

text \<open>
  C9, as amended. Every error the function throws to its caller is either the value thrown
  by the construction of the client at line 33, which is outside the \<open>try\<close> block and
  reaches the caller as it is, or an \<open>Error\<close> whose message starts with
  \<open>'An API error occurred: '\<close> or is the fixed message of the unknown error. The second
  case holds every error that leaves the \<open>try\<close> block, those thrown inside it for a
  response without image among them.
\<close>

theorem thrown_message_shape:
  assumes "fst (generateColoringPage ai b m t q fx) = Inl e"
  shows "ai = Inl e \<or>
    (\<exists>msg. e = Error msg \<and>
       (prefix (js ''An API error occurred: '') msg \<or>
        msg = js ''An unknown error occurred while communicating with the API.''))"
proof (cases ai)
  case (Inl thrown)
  with assms show ?thesis
    by (simp add: generateColoringPage_no_client)
next
  case (Inr service)
  note ai = this
  show ?thesis
  proof (cases "fst (try_block service (build_request b m t q) fx)")
    case (Inr v)
    then have "fst (generateColoringPage (Inr service) b m t q fx) = Inr v"
      by (rule result_resolved)
    with assms ai show ?thesis
      by simp
  next
    case (Inl e0)
    show ?thesis
    proof (cases e0)
      case (Error msg0)
      with Inl have "fst (generateColoringPage (Inr service) b m t q fx) =
          Inl (Error (js ''An API error occurred: '' @ msg0))"
        by (simp add: result_Error)
      with assms ai have "e = Error (js ''An API error occurred: '' @ msg0)"
        by simp
      then show ?thesis
        by simp
    next
      case NonError
      with Inl have "fst (generateColoringPage (Inr service) b m t q fx) =
          Inl (Error (js ''An unknown error occurred while communicating with the API.''))"
        by (simp add: result_NonError)
      with assms ai
      have "e = Error (js ''An unknown error occurred while communicating with the API.'')"
        by simp
      then show ?thesis
        by simp
    qed
  qed
qed

theorem thrown_message_shape_witness:
  "fst (generateColoringPage (Inr blank_service) (js ''AAAA'') (js ''image/png'') medium low
          no_effects) = Inl (api_error (message no_image_returned)) \<and>
   (\<exists>msg. api_error (message no_image_returned) = Error msg \<and>
      (prefix (js ''An API error occurred: '') msg \<or>
       msg = js ''An unknown error occurred while communicating with the API.''))"
proof -
  have "read_response blank_response = Inl no_image_returned"
    using no_image_nothing [OF blank_response_facts(2,3)]
    by (simp add: read_response_no_image blank_response_facts no_image_returned_def)
  then have h: "fst (generateColoringPage (Inr blank_service) (js ''AAAA'') (js ''image/png'')
        medium low no_effects) = Inl (api_error (message no_image_returned))"
    by (simp add: result_Error try_block_Returns blank_service_def no_image_returned_def
        api_error_def)
  from h thrown_message_shape [OF h] show ?thesis
    by (simp only: sum.distinct simp_thms)
qed

text \<open>
  C9 as the specification states it fails: when the construction of the client throws, as
  in a browser with no API key, the caller gets that error, whose message neither starts
  with \<open>'An API error occurred: '\<close> nor is the message of the unknown error.
\<close>

theorem client_error_not_wrapped:
  "fst (generateColoringPage keyless_client (js ''AAAA'') (js ''image/png'') thin low
          no_effects) =
     Inl (Error (js ''An API Key must be set when running in a browser'')) \<and>
   \<not> prefix (js ''An API error occurred: '')
       (js ''An API Key must be set when running in a browser'') \<and>
   js ''An API Key must be set when running in a browser'' \<noteq>
     js ''An unknown error occurred while communicating with the API.'' \<and>
   snd (generateColoringPage keyless_client (js ''AAAA'') (js ''image/png'') thin low
          no_effects) = no_effects"
proof -
  have "generateColoringPage keyless_client (js ''AAAA'') (js ''image/png'') thin low
      no_effects =
      (Inl (Error (js ''An API Key must be set when running in a browser'')), no_effects)"
    by (simp add: keyless_client_def generateColoringPage_no_client)
  moreover have "\<not> prefix (js ''An API error occurred: '')
      (js ''An API Key must be set when running in a browser'')"
    by (simp add: js_def)
  moreover have "js ''An API Key must be set when running in a browser'' \<noteq>
      js ''An unknown error occurred while communicating with the API.''"
    by (simp add: js_def)
  ultimately show ?thesis
    by simp
qed

text \<open>
  C10. Only the first candidate is inspected: when the first candidate of the response has
  no part with inline data, the function fails, whatever the later candidates hold.
\<close>

theorem only_first_candidate_inspected:
  assumes "service (build_request b m t q) = Returns r"
    and "candidates r = Some (c # cs)"
    and "\<forall>ps \<in> set_option (candidate_parts c). \<forall>p \<in> set ps. inlineData p = None"
  shows "\<exists>e. fst (generateColoringPage (Inr service) b m t q fx) = Inl e"
proof -
  have "imagePart r = None"
    using assms(2,3) by (rule imagePart_none)
  then have "read_response r = Inl (no_image r)"
    by (rule read_response_no_image)
  moreover obtain msg where "no_image r = Error msg"
    using no_image_is_Error by blast
  ultimately have "fst (try_block service (build_request b m t q) fx) = Inl (Error msg)"
    using assms(1) by (simp add: try_block_Returns)
  then show ?thesis
    by (simp add: result_Error)
qed

theorem only_first_candidate_inspected_witness:
  "second_candidate_service (build_request (js ''AAAA'') (js ''image/png'') thin low) =
     Returns second_candidate_response \<and>
   candidates second_candidate_response =
     Some (\<lparr>content_of = Some \<lparr>parts = Some []\<rparr>, finishReason = Some (js ''STOP'')\<rparr> #
           [\<lparr>content_of = Some \<lparr>parts = Some [image_part (js ''QUJD'')]\<rparr>,
             finishReason = Some (js ''STOP'')\<rparr>]) \<and>
   candidate_parts
     \<lparr>content_of = Some \<lparr>parts = Some []\<rparr>, finishReason = Some (js ''STOP'')\<rparr> = Some [] \<and>
   inlineData (image_part (js ''QUJD'')) \<noteq> None \<and>
   (\<exists>e. fst (generateColoringPage (Inr second_candidate_service) (js ''AAAA'') (js ''image/png'')
            thin low no_effects) = Inl e)"
proof -
  have h1: "second_candidate_service (build_request (js ''AAAA'') (js ''image/png'') thin low) =
      Returns second_candidate_response"
    by (simp add: second_candidate_service_def)
  have h2: "candidates second_candidate_response =
     Some (\<lparr>content_of = Some \<lparr>parts = Some []\<rparr>, finishReason = Some (js ''STOP'')\<rparr> #
           [\<lparr>content_of = Some \<lparr>parts = Some [image_part (js ''QUJD'')]\<rparr>,
             finishReason = Some (js ''STOP'')\<rparr>])"
    by (simp add: second_candidate_response_def)
  have h3: "\<forall>ps \<in> set_option (candidate_parts
        \<lparr>content_of = Some \<lparr>parts = Some []\<rparr>, finishReason = Some (js ''STOP'')\<rparr>).
      \<forall>p \<in> set ps. inlineData p = None"
    by (simp add: candidate_parts_def)
  have h4: "inlineData (image_part (js ''QUJD'')) \<noteq> None"
    by (simp add: image_part_def)
  have h5: "candidate_parts
     \<lparr>content_of = Some \<lparr>parts = Some []\<rparr>, finishReason = Some (js ''STOP'')\<rparr> = Some []"
    by (simp add: candidate_parts_def)
  from h1 h2 h4 h5
    only_first_candidate_inspected [of second_candidate_service "js ''AAAA''" "js ''image/png''"
      thin low second_candidate_response _ _ no_effects, OF h1 h2 h3]
  show ?thesis
    by (simp only: simp_thms)
qed

end
